theory Spec2Isabelle
  imports Main
begin

section \<open>The Number type of the language\<close>

text \<open>
  A TypeScript \<open>number\<close> is an IEEE 754 binary64 value. It is modelled by its
  mathematical content: not-a-number, the two infinities, the two zeros, and the non-zero
  finite values \<open>(-1)^s * m * 2^e\<close>. The flag is \<open>True\<close> for a negative sign. A value
  produced by \<open>fromRat\<close> is in canonical form: \<open>2^52 \<le> m < 2^53\<close> and
  \<open>-1074 \<le> e \<le> 971\<close> for a normal number, \<open>0 < m < 2^52\<close> and \<open>e = -1074\<close> for a
  subnormal one, so that two numbers are the same double exactly when they are equal.
\<close>

datatype number = NaN | Infinity bool | Zero bool | Finite bool int int

text \<open>The number of binary digits of a natural number (0 for a number that is not positive).\<close>

function bitlen :: "int \<Rightarrow> int" where
  "bitlen n = (if n \<le> 0 then 0 else 1 + bitlen (n div 2))"
  by pat_completeness auto
termination
  by (relation "measure nat") auto

declare bitlen.simps [simp del]

text \<open>\<open>ilog2 p q\<close> is the integer part of the binary logarithm of \<open>p / q\<close>, for positive \<open>p\<close>, \<open>q\<close>.\<close>

definition ilog2 :: "int \<Rightarrow> int \<Rightarrow> int" where
  "ilog2 p q =
     (let d = bitlen p - bitlen q
      in if q * 2 ^ nat d \<le> p * 2 ^ nat (- d) then d else d - 1)"

text \<open>The quotient \<open>p / q\<close> rounded to the nearest integer (for \<open>p \<ge> 0\<close> and \<open>q > 0\<close>), a tie going to the even one.\<close>

definition round_ties_even :: "int \<Rightarrow> int \<Rightarrow> int" where
  "round_ties_even p q =
     (let m = p div q; r = p mod q
      in if 2 * r < q then m
         else if q < 2 * r then m + 1
         else if even m then m else m + 1)"

text \<open>
  \<open>fromRat s p q\<close> is the double nearest to the rational \<open>(-1)^s * p / q\<close> (\<open>p \<ge> 0\<close>, \<open>q > 0\<close>), in the
  rounding mode roundTiesToEven that the language uses for literals and for arithmetic.
  A magnitude that rounds to \<open>2^1024\<close> or more overflows to an infinity.
\<close>

definition fromRat :: "bool \<Rightarrow> int \<Rightarrow> int \<Rightarrow> number" where
  "fromRat s p q =
     (if p = 0 then Zero s
      else
        let e = max (ilog2 p q - 52) (- 1074);
            m = round_ties_even (p * 2 ^ nat (- e)) (q * 2 ^ nat e);
            e' = (if m = 2 ^ 53 then e + 1 else e);
            m' = (if m = 2 ^ 53 then 2 ^ 52 else m)
        in if m' = 0 then Zero s
           else if 971 < e' then Infinity s
           else Finite s m' e')"

text \<open>A decimal literal of the source, given as a fraction: \<open>1.2\<close> is \<open>lit 12 10\<close>.\<close>

definition lit :: "int \<Rightarrow> int \<Rightarrow> number" where
  "lit p q = fromRat False p q"

text \<open>The operator \<open>*\<close> on numbers (Number::multiply).\<close>

fun multiply :: "number \<Rightarrow> number \<Rightarrow> number" where
  "multiply NaN _ = NaN"
| "multiply _ NaN = NaN"
| "multiply (Infinity s) (Zero t) = NaN"
| "multiply (Zero s) (Infinity t) = NaN"
| "multiply (Infinity s) (Infinity t) = Infinity (s \<noteq> t)"
| "multiply (Infinity s) (Finite t n f) = Infinity (s \<noteq> t)"
| "multiply (Finite s m e) (Infinity t) = Infinity (s \<noteq> t)"
| "multiply (Zero s) (Zero t) = Zero (s \<noteq> t)"
| "multiply (Zero s) (Finite t n f) = Zero (s \<noteq> t)"
| "multiply (Finite s m e) (Zero t) = Zero (s \<noteq> t)"
| "multiply (Finite s m e) (Finite t n f) =
     fromRat (s \<noteq> t) (m * n * 2 ^ nat (e + f)) (2 ^ nat (- (e + f)))"

text \<open>\<open>m * 2^e < n * 2^f\<close>, on magnitudes.\<close>

definition mag_less :: "int \<Rightarrow> int \<Rightarrow> int \<Rightarrow> int \<Rightarrow> bool" where
  "mag_less m e n f = (m * 2 ^ nat (e - f) < n * 2 ^ nat (f - e))"

text \<open>The operator \<open><\<close> on numbers: false as soon as an operand is NaN.\<close>

fun lessThan_number :: "number \<Rightarrow> number \<Rightarrow> bool" where
  "lessThan_number NaN _ = False"
| "lessThan_number _ NaN = False"
| "lessThan_number (Infinity s) (Infinity t) = (s \<and> \<not> t)"
| "lessThan_number (Infinity s) _ = s"
| "lessThan_number _ (Infinity t) = (\<not> t)"
| "lessThan_number (Zero s) (Zero t) = False"
| "lessThan_number (Zero s) (Finite t n f) = (\<not> t)"
| "lessThan_number (Finite s m e) (Zero t) = s"
| "lessThan_number (Finite s m e) (Finite t n f) =
     (if s then (if t then mag_less n f m e else True)
      else (if t then False else mag_less m e n f))"

subsection \<open>Conversion of a number to a string\<close>

text \<open>
  Number::toString in radix 10, which the operator \<open>+\<close> applies to a number operand when the
  other operand is a string: the shortest decimal digit string \<open>s\<close> (with \<open>k\<close> digits) and
  the exponent \<open>n\<close> such that \<open>s * 10^(n - k)\<close> rounds to the number; among the digit strings
  of that length the one nearest to the number is taken.
\<close>

definition digit :: "int \<Rightarrow> char" where
  "digit d = ''0123456789'' ! nat d"

function digits_of :: "int \<Rightarrow> string" where
  "digits_of n = (if n < 10 then [digit n] else digits_of (n div 10) @ [digit (n mod 10)])"
  by pat_completeness auto
termination
  by (relation "measure nat") auto

declare digits_of.simps [simp del]

text \<open>The number of zeros between the decimal point and the first digit of \<open>p / q < 1\<close>.\<close>

function lead_zeros :: "int \<Rightarrow> int \<Rightarrow> int" where
  "lead_zeros p q = (if p \<le> 0 \<or> q \<le> 10 * p then 0 else 1 + lead_zeros (10 * p) q)"
  by pat_completeness auto
termination
  by (relation "measure (\<lambda>(p, q). nat (q - p))") auto

declare lead_zeros.simps [simp del]

text \<open>The decimal exponent \<open>n\<close> of a positive rational: \<open>10^(n - 1) \<le> p / q < 10^n\<close>.\<close>

definition dec_exp :: "int \<Rightarrow> int \<Rightarrow> int" where
  "dec_exp p q = (if q \<le> p then int (length (digits_of (p div q))) else - lead_zeros p q)"

text \<open>
  The two \<open>k\<close>-digit neighbours of \<open>p / q\<close>, below and above; \<open>candidate\<close> returns the digits
  and the exponent when one of them rounds to the number \<open>d\<close>, the nearer one when both do.
  With 17 digits the nearest decimal always rounds to the double, and it is taken.
\<close>

definition candidate :: "number \<Rightarrow> int \<Rightarrow> int \<Rightarrow> int \<Rightarrow> (int \<times> int) option" where
  "candidate d p q k =
     (let n = dec_exp p q;
          t = n - k;
          P = p * 10 ^ nat (- t);
          Q = q * 10 ^ nat t;
          lo = P div Q;
          r = P mod Q;
          hi = (if r = 0 then lo else lo + 1);
          ok_lo = (fromRat False (lo * 10 ^ nat t) (10 ^ nat (- t)) = d);
          ok_hi = (fromRat False (hi * 10 ^ nat t) (10 ^ nat (- t)) = d);
          nearest = (if 2 * r < Q then lo else if Q < 2 * r then hi
                     else if even lo then lo else hi);
          pick = (if (ok_lo \<and> ok_hi) \<or> 17 \<le> k then nearest else if ok_lo then lo else hi)
      in if ok_lo \<or> ok_hi \<or> 17 \<le> k
         then Some (if pick = 10 ^ nat k then (10 ^ nat (k - 1), n + 1) else (pick, n))
         else None)"

function shortest :: "number \<Rightarrow> int \<Rightarrow> int \<Rightarrow> int \<Rightarrow> int \<times> int" where
  "shortest d p q k =
     (case candidate d p q k of
        Some c \<Rightarrow> c
      | None \<Rightarrow> if 17 \<le> k then (0, 0) else shortest d p q (k + 1))"
  by pat_completeness auto
termination
  by (relation "measure (\<lambda>(d, p, q, k). nat (17 - k))") auto

declare shortest.simps [simp del]

definition format_digits :: "int \<Rightarrow> int \<Rightarrow> string" where
  "format_digits s n =
     (let ds = digits_of s; k = int (length ds)
      in if - 5 \<le> n \<and> n \<le> 21 then
           (if k \<le> n then ds @ replicate (nat (n - k)) (CHR ''0'')
            else if 0 < n then take (nat n) ds @ ''.'' @ drop (nat n) ds
            else ''0.'' @ replicate (nat (- n)) (CHR ''0'') @ ds)
         else
           (let e = n - 1;
                sign = (if e < 0 then ''-'' else ''+'');
                mant = (if k = 1 then ds else take 1 ds @ ''.'' @ drop 1 ds)
            in mant @ ''e'' @ sign @ digits_of \<bar>e\<bar>))"

fun Number_toString :: "number \<Rightarrow> string" where
  "Number_toString NaN = ''NaN''"
| "Number_toString (Zero s) = ''0''"
| "Number_toString (Infinity s) = (if s then ''-Infinity'' else ''Infinity'')"
| "Number_toString (Finite s m e) =
     (if s then ''-'' else []) @
     (case shortest (Finite False m e) (m * 2 ^ nat e) (2 ^ nat (- e)) 1 of
        (ds, n) \<Rightarrow> format_digits ds n)"

text \<open>
  A value of type \<open>number | undefined\<close> is a \<open>number option\<close>, \<open>None\<close> being \<open>undefined\<close>.
  \<open>ToString\<close> is the conversion that string concatenation applies to such a value.
\<close>

definition ToString :: "number option \<Rightarrow> string" where
  "ToString v = (case v of None \<Rightarrow> ''undefined'' | Some d \<Rightarrow> Number_toString d)"

text \<open>The operator \<open>===\<close> on values of type \<open>number | undefined\<close>.\<close>

fun Number_equal :: "number \<Rightarrow> number \<Rightarrow> bool" where
  "Number_equal NaN _ = False"
| "Number_equal _ NaN = False"
| "Number_equal (Zero s) (Zero t) = True"
| "Number_equal a b = (a = b)"

fun strict_equals :: "number option \<Rightarrow> number option \<Rightarrow> bool" where
  "strict_equals None None = True"
| "strict_equals (Some a) (Some b) = Number_equal a b"
| "strict_equals _ _ = False"

section \<open>calculateTax\<close>

text \<open>
  \<^verbatim>\<open>
  function calculateTax(income: number, taxYear = 2022): number {
      if (taxYear < 2022)
          return income * 1.2;
      return income * 1.3;
  }
  \<close>
  The second argument is optional: \<open>None\<close> is an omitted (or \<open>undefined\<close>) argument, for
  which the parameter takes its default value.
\<close>

definition calculateTax :: "number \<Rightarrow> number option \<Rightarrow> number" where
  "calculateTax income taxYear_arg =
     (let taxYear = (case taxYear_arg of None \<Rightarrow> lit 2022 1 | Some t \<Rightarrow> t)
      in if lessThan_number taxYear (lit 2022 1)
         then multiply income (lit 12 10)
         else multiply income (lit 13 10))"

section \<open>The class Point\<close>

text \<open>
  \<^verbatim>\<open>
  class Point {
      x: number;
      y: number;

      constructor(x?: number, y?: number) {
          this.x = x;
          this.y = y;
      }
      draw() {
          console.log('X: ' + this.x + ', Y: ' + this.y);
      }
      getDistance(another: Point) {
          // ...
      }
  }
  \<close>
  An object of the class is a record of its two fields. An optional parameter that the
  caller omits is \<open>undefined\<close>, so a field holds a \<open>number option\<close>.

  Objects live in a heap and are handled through references: a reference is the index of
  the object in the list of the objects allocated so far. The state of a run is the heap
  and the lines written to the console. A thrown error is the name of its class, and the
  outcome of a call is \<open>Inl\<close> of the error thrown or \<open>Inr\<close> of the result and the state
  after the call.
\<close>

record Point =
  x :: "number option"
  y :: "number option"

type_synonym ref = nat

record state =
  heap :: "Point list"
  console :: "string list"

type_synonym error = string

definition init :: state where
  "init = \<lparr>heap = [], console = []\<rparr>"

text \<open>
  The object a reference denotes. A reference beyond the heap denotes no object: it
  stands for a receiver that is not a Point (\<open>undefined\<close>, for a method called detached
  from its object).
\<close>

definition deref :: "state \<Rightarrow> ref \<Rightarrow> Point option" where
  "deref s r = (if r < length (heap s) then Some (heap s ! r) else None)"

text \<open>An assignment to a field of the object at \<open>r\<close>.\<close>

definition assign :: "ref \<Rightarrow> (Point \<Rightarrow> Point) \<Rightarrow> state \<Rightarrow> error + state" where
  "assign r f s =
     (case deref s r of
        None \<Rightarrow> Inl ''TypeError''
      | Some p \<Rightarrow> Inr (s\<lparr>heap := (heap s)[r := f p]\<rparr>))"

text \<open>\<open>console.log\<close> of a string writes it as one line.\<close>

definition console_log :: "string \<Rightarrow> state \<Rightarrow> state" where
  "console_log line s = s\<lparr>console := console s @ [line]\<rparr>"

text \<open>Sequencing: an error thrown by the first call ends the run.\<close>

definition andThen :: "error + 'a \<Rightarrow> ('a \<Rightarrow> error + 'b) \<Rightarrow> error + 'b" where
  "andThen r f = (case r of Inl e \<Rightarrow> Inl e | Inr v \<Rightarrow> f v)"

text \<open>
  \<open>new Point(x, y)\<close>: a fresh object is allocated, with both fields \<open>undefined\<close>; the body
  of the constructor then assigns the two parameters to them, in the order of the source.
\<close>

definition new_Point :: "number option \<Rightarrow> number option \<Rightarrow> state \<Rightarrow> error + (ref \<times> state)" where
  "new_Point x' y' s =
     (let this = length (heap s);
          s0 = s\<lparr>heap := heap s @ [\<lparr>x = None, y = None\<rparr>]\<rparr>
      in andThen (assign this (\<lambda>p. p\<lparr>x := x'\<rparr>) s0) (\<lambda>s1.
         andThen (assign this (\<lambda>p. p\<lparr>y := y'\<rparr>) s1) (\<lambda>s2.
         Inr (this, s2))))"

definition draw :: "ref \<Rightarrow> state \<Rightarrow> error + state" where
  "draw this s =
     (case deref s this of
        None \<Rightarrow> Inl ''TypeError''
      | Some p \<Rightarrow> Inr (console_log (((''X: '' @ ToString (x p)) @ '', Y: '') @ ToString (y p)) s))"

text \<open>
  The body of \<open>getDistance\<close> is empty: the call reads nothing, writes nothing, and
  returns \<open>undefined\<close>.
\<close>

definition getDistance :: "ref \<Rightarrow> ref \<Rightarrow> state \<Rightarrow> error + (number option \<times> state)" where
  "getDistance this another s = Inr (None, s)"

section \<open>Runs\<close>

text \<open>
  \<^verbatim>\<open>
  const enum Size { Small = 1, Medium = 2, Large = 3 }
  let mySize: Size = Size.Medium;
  \<close>
\<close>

datatype Size = Small | Medium | Large

fun Size_value :: "Size \<Rightarrow> number" where
  "Size_value Small = lit 1 1"
| "Size_value Medium = lit 2 1"
| "Size_value Large = lit 3 1"

definition mySize :: Size where
  "mySize = Medium"

text \<open>
  The statements of the file that have an effect, in their order:
  \<^verbatim>\<open>
  console.log(mySize);
  let point = new Point(1, 2);
  point.draw();
  \<close>
  \<open>console.log\<close> of a number writes the number converted to a string.
\<close>

definition main :: "state \<Rightarrow> error + state" where
  "main s =
     (let s0 = console_log (Number_toString (Size_value mySize)) s
      in andThen (new_Point (Some (lit 1 1)) (Some (lit 2 1)) s0) (\<lambda>(point, s1).
         draw point s1))"

text \<open>\<open>new Point(a, b).draw()\<close>, and the lines on the console afterwards.\<close>

definition new_draw :: "number option \<Rightarrow> number option \<Rightarrow> state \<Rightarrow> error + string list" where
  "new_draw a b s =
     andThen (new_Point a b s) (\<lambda>(p, s1).
     andThen (draw p s1) (\<lambda>s2.
     Inr (console s2)))"

text \<open>The fields of \<open>new Point(a, b)\<close>.\<close>

definition new_fields :: "number option \<Rightarrow> number option \<Rightarrow> state \<Rightarrow> error + Point option" where
  "new_fields a b s =
     andThen (new_Point a b s) (\<lambda>(p, s1).
     Inr (deref s1 p))"

text \<open>
  \<open>p1 = new Point(a, b); p2 = new Point(c, d); p1.getDistance(p2)\<close>, and the value
  returned.
\<close>

definition new_getDistance ::
  "number option \<Rightarrow> number option \<Rightarrow> number option \<Rightarrow> number option \<Rightarrow> state
     \<Rightarrow> error + number option" where
  "new_getDistance a b c d s =
     andThen (new_Point a b s) (\<lambda>(p1, s1).
     andThen (new_Point c d s1) (\<lambda>(p2, s2).
     andThen (getDistance p1 p2 s2) (\<lambda>(r, s3).
     Inr r)))"

text \<open>\<open>p = new Point(a, b); p.getDistance(p)\<close>, and the value returned.\<close>

definition new_getDistance_self :: "number option \<Rightarrow> number option \<Rightarrow> state \<Rightarrow> error + number option" where
  "new_getDistance_self a b s =
     andThen (new_Point a b s) (\<lambda>(p, s1).
     andThen (getDistance p p s1) (\<lambda>(r, s2).
     Inr r))"

text \<open>
  The state after \<open>new Point(1, 2)\<close> and \<open>new Point(4, 6)\<close> in the initial state: the two
  points are at the references 0 and 1.
\<close>

definition two_points :: state where
  "two_points =
     \<lparr>heap = [\<lparr>x = Some (lit 1 1), y = Some (lit 2 1)\<rparr>,
              \<lparr>x = Some (lit 4 1), y = Some (lit 6 1)\<rparr>],
      console = []\<rparr>"

section \<open>What construction and the methods compute\<close>

lemma new_Point_result:
  "new_Point a b s = Inr (length (heap s), s\<lparr>heap := heap s @ [\<lparr>x = a, y = b\<rparr>]\<rparr>)"
  by (simp add: new_Point_def assign_def deref_def andThen_def Let_def)

lemma deref_fresh:
  "deref (s\<lparr>heap := heap s @ [p]\<rparr>) (length (heap s)) = Some p"
  by (simp add: deref_def)

lemma new_fields_result: "new_fields a b s = Inr (Some \<lparr>x = a, y = b\<rparr>)"
  by (simp add: new_fields_def new_Point_result andThen_def deref_fresh)

lemma new_draw_result:
  "new_draw a b s = Inr (console s @ [''X: '' @ ToString a @ '', Y: '' @ ToString b])"
  by (simp add: new_draw_def new_Point_result andThen_def draw_def deref_fresh console_log_def)

lemma new_getDistance_result: "new_getDistance a b c d s = Inr None"
  by (simp add: new_getDistance_def new_Point_result andThen_def getDistance_def)

lemma new_getDistance_self_result: "new_getDistance_self a b s = Inr None"
  by (simp add: new_getDistance_self_def new_Point_result andThen_def getDistance_def)

lemma draw_result:
  "deref s this = Some p \<Longrightarrow>
     draw this s =
       Inr (s\<lparr>console := console s @ [''X: '' @ ToString (x p) @ '', Y: '' @ ToString (y p)]\<rparr>)"
  by (simp add: draw_def console_log_def)

lemma two_points_constructed:
  "andThen (new_Point (Some (lit 1 1)) (Some (lit 2 1)) init) (\<lambda>(p1, s1).
   andThen (new_Point (Some (lit 4 1)) (Some (lit 6 1)) s1) (\<lambda>(p2, s2).
   Inr (p1, p2, s2))) = Inr (0, 1, two_points)"
  by (simp add: new_Point_result andThen_def init_def two_points_def)

lemma deref_two_points:
  "deref two_points 0 = Some \<lparr>x = Some (lit 1 1), y = Some (lit 2 1)\<rparr>"
  "deref two_points 1 = Some \<lparr>x = Some (lit 4 1), y = Some (lit 6 1)\<rparr>"
  by (simp_all add: deref_def two_points_def)

lemma toString_0: "Number_toString (lit 0 1) = ''0''"
  by code_simp

lemma toString_1: "Number_toString (lit 1 1) = ''1''"
  by code_simp

lemma toString_2: "Number_toString (lit 2 1) = ''2''"
  by code_simp

text \<open>The conversion on some numbers, with the strings that the language gives for them.\<close>

lemma Number_toString_examples:
  "Number_toString (lit 2022 1) = ''2022''"
  "Number_toString (lit 12 10) = ''1.2''"
  "Number_toString (lit 1 10) = ''0.1''"
  "Number_toString (multiply (lit 1 10) (lit 3 1)) = ''0.30000000000000004''"
  "Number_toString (multiply (lit 10000 1) (lit 13 10)) = ''13000''"
  "Number_toString (fromRat True 15 10) = ''-1.5''"
  "Number_toString (lit 123456 1000) = ''123.456''"
  "Number_toString (lit 1 1000000) = ''0.000001''"
  "Number_toString (lit 1 10000000) = ''1e-7''"
  "Number_toString (lit 1000000000000000000000 1) = ''1e+21''"
  "Number_toString (lit 9007199254740993 1) = ''9007199254740992''"
  by code_simp+

text \<open>The literals of \<open>calculateTax\<close> as doubles, and the function on a few incomes.\<close>

lemma rate_literals:
  "lit 12 10 = Finite False 5404319552844595 (- 52)"
  "lit 13 10 = Finite False 5854679515581645 (- 52)"
  "lit 2022 1 = Finite False 8892850045452288 (- 42)"
  by code_simp+

lemma calculateTax_examples:
  "calculateTax (lit 10000 1) (Some (lit 2021 1)) = lit 12000 1"
  "calculateTax (lit 10000 1) (Some (lit 2022 1)) = lit 13000 1"
  "calculateTax (lit 10000 1) (Some NaN) = lit 13000 1"
  "calculateTax (lit 10000 1) None = lit 13000 1"
  by code_simp+

section \<open>Rendering\<close>

text \<open>
  C3: for all numbers \<open>a\<close> and \<open>b\<close>, constructing a point with the coordinates \<open>(a, b)\<close>
  and calling \<open>draw\<close> writes exactly one line to the console, the string \<open>X: a, Y: b\<close> with
  the two numbers converted to strings; the point \<open>(1, 2)\<close> gives \<open>X: 1, Y: 2\<close>, which is
  also the line that the file itself writes, after the line \<open>2\<close> of \<open>mySize\<close>.
\<close>

theorem draw_writes_coordinates:
  "new_draw (Some a) (Some b) s =
     Inr (console s @ [''X: '' @ Number_toString a @ '', Y: '' @ Number_toString b])
   \<and> new_draw (Some (lit 1 1)) (Some (lit 2 1)) s = Inr (console s @ [''X: 1, Y: 2''])
   \<and> andThen (main init) (\<lambda>s'. Inr (console s')) = Inr [''2'', ''X: 1, Y: 2'']"
proof -
  have gen: "new_draw (Some u) (Some v) t =
      Inr (console t @ [''X: '' @ Number_toString u @ '', Y: '' @ Number_toString v])" for u v t
    by (simp add: new_draw_result ToString_def)
  have one_two: "new_draw (Some (lit 1 1)) (Some (lit 2 1)) t = Inr (console t @ [''X: 1, Y: 2''])" for t
    by (simp add: gen toString_1 toString_2)
  have "andThen (main init) (\<lambda>s'. Inr (console s')) =
      new_draw (Some (lit 1 1)) (Some (lit 2 1)) (console_log ''2'' init)"
    by (simp add: main_def new_draw_def andThen_def mySize_def toString_2 Let_def
        split: sum.splits prod.splits)
  then have "andThen (main init) (\<lambda>s'. Inr (console s')) = Inr [''2'', ''X: 1, Y: 2'']"
    by (simp add: one_two init_def console_log_def)
  with gen one_two show ?thesis by simp
qed

text \<open>
  C6: constructing a point with no arguments leaves both fields \<open>undefined\<close>, which is not
  the point constructed with two zeros, and \<open>draw\<close> on it writes
  \<open>X: undefined, Y: undefined\<close>, where the point of two zeros gives \<open>X: 0, Y: 0\<close>.
\<close>

theorem new_without_arguments:
  "new_fields None None s = Inr (Some \<lparr>x = None, y = None\<rparr>)
   \<and> new_fields None None s \<noteq> new_fields (Some (lit 0 1)) (Some (lit 0 1)) s
   \<and> new_draw None None s = Inr (console s @ [''X: undefined, Y: undefined''])
   \<and> new_draw (Some (lit 0 1)) (Some (lit 0 1)) s = Inr (console s @ [''X: 0, Y: 0''])"
  by (simp add: new_fields_result new_draw_result ToString_def toString_0)

text \<open>
  C9: constructing a point with the single argument \<open>a\<close> sets \<open>x\<close> to \<open>a\<close> and leaves \<open>y\<close>
  \<open>undefined\<close>, and \<open>draw\<close> on it writes \<open>X: a, Y: undefined\<close>.
\<close>

theorem new_with_one_argument:
  "new_fields (Some a) None s = Inr (Some \<lparr>x = Some a, y = None\<rparr>)
   \<and> new_draw (Some a) None s =
       Inr (console s @ [''X: '' @ Number_toString a @ '', Y: undefined''])"
  by (simp add: new_fields_result new_draw_result ToString_def)

section \<open>Construction and draw always return\<close>

text \<open>
  C7: construction never fails, whichever of the two arguments are given, and the new
  object holds them; constructing a point and drawing it never fails; and \<open>draw\<close> returns
  on every receiver that is a point of the heap.
\<close>

theorem construction_and_draw_never_fail:
  "(\<exists>p s'. new_Point a b s = Inr (p, s') \<and> deref s' p = Some \<lparr>x = a, y = b\<rparr>)
   \<and> (\<exists>ls. new_draw a b s = Inr ls)
   \<and> (deref s this \<noteq> None \<longrightarrow> (\<exists>s'. draw this s = Inr s'))"
proof (intro conjI impI)
  show "\<exists>p s'. new_Point a b s = Inr (p, s') \<and> deref s' p = Some \<lparr>x = a, y = b\<rparr>"
    by (simp add: new_Point_result deref_fresh)
  show "\<exists>ls. new_draw a b s = Inr ls"
    by (simp add: new_draw_result)
  assume "deref s this \<noteq> None"
  then obtain p where "deref s this = Some p" by blast
  then show "\<exists>s'. draw this s = Inr s'"
    by (simp add: draw_result)
qed

text \<open>The first of the two points is a receiver on which \<open>draw\<close> returns.\<close>

theorem construction_and_draw_never_fail_witness:
  "deref two_points 0 \<noteq> None \<and> (\<exists>s'. draw 0 two_points = Inr s')"
  using construction_and_draw_never_fail [of None None two_points 0]
  by (simp add: deref_two_points)

section \<open>The methods change no point\<close>

text \<open>
  C8: a point is not changed after its construction. \<open>draw\<close> leaves the heap as it is, so
  every reference denotes the same coordinates afterwards (only the console grows);
  \<open>getDistance\<close> leaves the whole state as it is, receiver and argument included; and
  the construction of a further point leaves every point that exists as it is.
\<close>

theorem methods_leave_points_unchanged:
  "(draw this s = Inr s' \<longrightarrow> heap s' = heap s \<and> (\<forall>q. deref s' q = deref s q))
   \<and> (getDistance this another s = Inr (r, s'') \<longrightarrow> s'' = s)
   \<and> (new_Point a b s = Inr (p, t) \<and> deref s q \<noteq> None \<longrightarrow> deref t q = deref s q)"
proof -
  have drawn: "heap s' = heap s \<and> (\<forall>q. deref s' q = deref s q)" if "draw this s = Inr s'"
  proof -
    from that have "heap s' = heap s"
      by (auto simp: draw_def console_log_def split: option.splits)
    then show ?thesis
      by (simp add: deref_def)
  qed
  have measured: "s'' = s" if "getDistance this another s = Inr (r, s'')"
    using that by (simp add: getDistance_def)
  have constructed: "deref t q = deref s q"
    if "new_Point a b s = Inr (p, t) \<and> deref s q \<noteq> None"
  proof -
    from that have "heap t = heap s @ [\<lparr>x = a, y = b\<rparr>]" and "q < length (heap s)"
      by (auto simp: new_Point_result deref_def split: if_splits)
    then show ?thesis
      by (simp add: deref_def nth_append)
  qed
  from drawn measured constructed show ?thesis
    by blast
qed

text \<open>
  Drawing the first of the two points, its distance to the second, and the construction
  of a third point.
\<close>

theorem methods_leave_points_unchanged_witness:
  "draw 0 two_points = Inr (console_log ''X: 1, Y: 2'' two_points)
   \<and> heap (console_log ''X: 1, Y: 2'' two_points) = heap two_points
   \<and> getDistance 0 1 two_points = Inr (None, two_points)
   \<and> (\<exists>t. new_Point None None two_points = Inr (2, t) \<and> deref two_points 0 \<noteq> None
          \<and> deref t 0 = deref two_points 0)"
proof -
  let ?t = "two_points\<lparr>heap := heap two_points @ [\<lparr>x = None, y = None\<rparr>]\<rparr>"
  have d: "draw 0 two_points = Inr (console_log ''X: 1, Y: 2'' two_points)"
    by (simp add: draw_def deref_two_points ToString_def toString_1 toString_2)
  have g: "getDistance 0 1 two_points = Inr (None, two_points)"
    by (simp add: getDistance_def)
  have n: "new_Point None None two_points = Inr (2, ?t)"
    by (simp add: new_Point_result two_points_def)
  have q: "deref two_points 0 \<noteq> None"
    by (simp add: deref_two_points)
  from methods_leave_points_unchanged
    [of 0 two_points "console_log ''X: 1, Y: 2'' two_points" 1 None two_points None None 2 ?t 0]
    d g n q
  show ?thesis by simp
qed

section \<open>getDistance\<close>

text \<open>
  C4: for all points \<open>p1\<close> and \<open>p2\<close> with both coordinates set, \<open>p1.getDistance(p2)\<close> and
  \<open>p2.getDistance(p1)\<close> return equal values (both calls return \<open>undefined\<close>, and
  \<open>undefined === undefined\<close>).
\<close>

theorem getDistance_symmetric:
  "deref s p1 = Some \<lparr>x = Some a, y = Some b\<rparr> \<Longrightarrow>
   deref s p2 = Some \<lparr>x = Some c, y = Some d\<rparr> \<Longrightarrow>
     \<exists>r1 r2. getDistance p1 p2 s = Inr (r1, s) \<and> getDistance p2 p1 s = Inr (r2, s)
        \<and> r1 = r2 \<and> strict_equals r1 r2"
  by (simp add: getDistance_def)

text \<open>The points \<open>(1, 2)\<close> and \<open>(4, 6)\<close>, in both orders.\<close>

theorem getDistance_symmetric_witness:
  "deref two_points 0 = Some \<lparr>x = Some (lit 1 1), y = Some (lit 2 1)\<rparr>
   \<and> deref two_points 1 = Some \<lparr>x = Some (lit 4 1), y = Some (lit 6 1)\<rparr>
   \<and> (\<exists>r1 r2. getDistance 0 1 two_points = Inr (r1, two_points)
         \<and> getDistance 1 0 two_points = Inr (r2, two_points) \<and> r1 = r2 \<and> strict_equals r1 r2)"
  using getDistance_symmetric [OF deref_two_points(1) deref_two_points(2)] deref_two_points
  by simp

text \<open>
  C1, as the code has it: for all points with both coordinates set, \<open>getDistance\<close> returns
  \<open>undefined\<close>, since the body of the method is empty; no distance is computed.
\<close>

theorem getDistance_returns_undefined:
  "new_getDistance (Some a) (Some b) (Some c) (Some d) s = Inr None"
  by (rule new_getDistance_result)

text \<open>
  The distance from \<open>(1, 2)\<close> to \<open>(4, 6)\<close> is 5, and \<open>getDistance\<close> on these two points
  does not return 5.
\<close>

theorem getDistance_1_2_4_6_is_not_5:
  "new_getDistance (Some (lit 1 1)) (Some (lit 2 1)) (Some (lit 4 1)) (Some (lit 6 1)) init
     = Inr None
   \<and> new_getDistance (Some (lit 1 1)) (Some (lit 2 1)) (Some (lit 4 1)) (Some (lit 6 1)) init
       \<noteq> Inr (Some (lit 5 1))"
  by (simp add: new_getDistance_result)

text \<open>
  C2, as the code has it: when a coordinate of either point is unset, \<open>getDistance\<close>
  returns \<open>undefined\<close>; it throws no error on any pair of points, whether or not their
  coordinates are set, and on any receiver and argument in any state. No operation on
  points fails: construction throws no error either, and \<open>draw\<close> throws none on a
  receiver that is a point.
\<close>

theorem getDistance_never_raises:
  "(a = None \<or> b = None \<or> c = None \<or> d = None \<longrightarrow> new_getDistance a b c d s = Inr None)
   \<and> (\<forall>e. new_getDistance a b c d s \<noteq> Inl e)
   \<and> (\<forall>e. getDistance this another t \<noteq> Inl e)
   \<and> (\<forall>e. new_Point a b s \<noteq> Inl e)
   \<and> (\<forall>e. new_draw a b s \<noteq> Inl e)
   \<and> (deref t this \<noteq> None \<longrightarrow> (\<forall>e. draw this t \<noteq> Inl e))"
proof -
  have measured: "new_getDistance a b c d s = Inr None"
    by (rule new_getDistance_result)
  have called: "getDistance this another t \<noteq> Inl e" for e
    by (simp add: getDistance_def)
  have constructed: "new_Point a b s \<noteq> Inl e" for e
    by (simp add: new_Point_result)
  have rendered: "new_draw a b s \<noteq> Inl e" for e
    by (simp add: new_draw_result)
  have drawn: "draw this t \<noteq> Inl e" if "deref t this \<noteq> None" for e
  proof -
    from that obtain p where "deref t this = Some p" by blast
    then show ?thesis by (simp add: draw_result)
  qed
  from measured called constructed rendered drawn show ?thesis
    by simp
qed

text \<open>
  A point with no coordinate set, its distance to \<open>(1, 2)\<close>, and \<open>draw\<close> on the first of
  the two points.
\<close>

theorem getDistance_never_raises_witness:
  "new_getDistance None None (Some (lit 1 1)) (Some (lit 2 1)) init = Inr None
   \<and> (\<forall>e. new_getDistance None None (Some (lit 1 1)) (Some (lit 2 1)) init \<noteq> Inl e)
   \<and> (\<forall>e. getDistance 0 1 two_points \<noteq> Inl e)
   \<and> (\<forall>e. new_Point None None init \<noteq> Inl e)
   \<and> (\<forall>e. new_draw None None init \<noteq> Inl e)
   \<and> deref two_points 0 \<noteq> None
   \<and> (\<forall>e. draw 0 two_points \<noteq> Inl e)"
  using getDistance_never_raises [of None None "Some (lit 1 1)" "Some (lit 2 1)" init 0 1 two_points]
  by (simp add: deref_two_points)

text \<open>
  With both coordinates of the receiver unset the call returns \<open>undefined\<close>: no
  \<open>InvalidOperandError\<close> is thrown.
\<close>

theorem getDistance_unset_raises_nothing:
  "new_getDistance None None (Some (lit 1 1)) (Some (lit 2 1)) init = Inr None
   \<and> new_getDistance None None (Some (lit 1 1)) (Some (lit 2 1)) init
       \<noteq> Inl ''InvalidOperandError''"
  by (simp add: new_getDistance_result)

text \<open>
  C5, as the code has it: for every point \<open>p\<close> with both coordinates set,
  \<open>p.getDistance(p)\<close> returns \<open>undefined\<close>, which is not equal to 0.
\<close>

theorem getDistance_self_undefined:
  "new_getDistance_self (Some a) (Some b) s = Inr None
   \<and> \<not> strict_equals None (Some (lit 0 1))"
  by (simp add: new_getDistance_self_result)

text \<open>
  \<open>getDistance\<close> from the point \<open>(1, 2)\<close> to itself returns \<open>undefined\<close>, not a value
  equal to 0.
\<close>

theorem getDistance_self_is_not_zero:
  "new_getDistance_self (Some (lit 1 1)) (Some (lit 2 1)) init = Inr None
   \<and> \<not> (\<exists>r. new_getDistance_self (Some (lit 1 1)) (Some (lit 2 1)) init = Inr r
          \<and> strict_equals r (Some (lit 0 1)))"
  by (simp add: new_getDistance_self_result)

section \<open>The tax rates\<close>

text \<open>
  C10: for every income, \<open>calculateTax(income, taxYear)\<close> is \<open>income * 1.2\<close> when
  \<open>taxYear < 2022\<close> and \<open>income * 1.3\<close> otherwise; with the second argument omitted the
  year is 2022 and the result is \<open>income * 1.3\<close>.
\<close>

theorem calculateTax_rates:
  "calculateTax income (Some taxYear) =
     (if lessThan_number taxYear (lit 2022 1) then multiply income (lit 12 10)
      else multiply income (lit 13 10))
   \<and> calculateTax income None = multiply income (lit 13 10)"
proof -
  have "\<not> lessThan_number (lit 2022 1) (lit 2022 1)"
    by code_simp
  then show ?thesis
    by (simp add: calculateTax_def)
qed

end
